theory Spec2Isabelle
  imports Complex_Main "HOL-Library.Word"
begin

section \<open>JavaScript values\<close>

text \<open>
  The popup (\<^verbatim>\<open>src/browser-extension/popup/index.tsx\<close>) works on JavaScript strings and on
  the values that \<^verbatim>\<open>response.json()\<close> yields. A JavaScript string is a sequence of 16-bit
  code units; the Chinese messages of the source are written out as their code units.
\<close>

type_synonym jsstring = "16 word list"

definition ascii :: "string \<Rightarrow> jsstring" where
  "ascii s = map (\<lambda>c. of_nat (of_char c)) s"

text \<open>
  A number parsed from JSON is a finite double or an infinity (\<^verbatim>\<open>1e999\<close>), never NaN. The
  program only tests numbers for truthiness and reads properties off them; \<open>-0\<close> is
  identified with \<open>0\<close>, both being falsy.
\<close>

datatype jsnum = Finite rat | Infinity bool

text \<open>
  \<open>JUndefined\<close> is not a JSON value: it is what reading a missing property yields. An
  object is the list of its own properties, each key once.
\<close>

datatype jsval =
    JUndefined
  | JNull
  | JBool bool
  | JNum jsnum
  | JStr jsstring
  | JArr "jsval list"
  | JObj "(jsstring \<times> jsval) list"

text \<open>What the program can throw, or a platform call can reject with.\<close>

datatype js_error =
    TypeError
  | SyntaxError
  | URIError
  | NetworkError
  | NotAllowedError
  | ReaderError

text \<open>ToBoolean, as \<^verbatim>\<open>!x\<close>, \<^verbatim>\<open>x && y\<close>, \<^verbatim>\<open>x || y\<close> and \<^verbatim>\<open>if (x)\<close> apply it.\<close>

fun truthy :: "jsval \<Rightarrow> bool" where
  "truthy JUndefined = False"
| "truthy JNull = False"
| "truthy (JBool b) = b"
| "truthy (JNum (Finite q)) = (q \<noteq> 0)"
| "truthy (JNum (Infinity _)) = True"
| "truthy (JStr s) = (s \<noteq> [])"
| "truthy (JArr _) = True"
| "truthy (JObj _) = True"

text \<open>
  \<open>get_field v k\<close> is \<^verbatim>\<open>v.k\<close> for the identifier keys the source reads
  (\<^verbatim>\<open>candidates\<close>, \<^verbatim>\<open>content\<close>, \<^verbatim>\<open>parts\<close>, \<^verbatim>\<open>text\<close>, \<^verbatim>\<open>translateResult\<close>, \<^verbatim>\<open>tgt\<close>):
  none of them is an index or a member that strings, arrays or the prototypes provide.
  Reading a property of \<^verbatim>\<open>undefined\<close> or \<^verbatim>\<open>null\<close> throws a TypeError; a primitive or an
  array has no such property; an object yields its own property or \<^verbatim>\<open>undefined\<close>.
\<close>

fun get_field :: "jsval \<Rightarrow> jsstring \<Rightarrow> js_error + jsval" where
  "get_field JUndefined k = Inl TypeError"
| "get_field JNull k = Inl TypeError"
| "get_field (JObj kvs) k = (case map_of kvs k of None \<Rightarrow> Inr JUndefined | Some v \<Rightarrow> Inr v)"
| "get_field _ k = Inr JUndefined"

text \<open>
  \<open>get_index0 v\<close> is \<^verbatim>\<open>v[0]\<close>: the first element of an array, the first code unit of a
  string (as a string of length one), the property \<^verbatim>\<open>"0"\<close> of an object.
\<close>

fun get_index0 :: "jsval \<Rightarrow> js_error + jsval" where
  "get_index0 JUndefined = Inl TypeError"
| "get_index0 JNull = Inl TypeError"
| "get_index0 (JArr []) = Inr JUndefined"
| "get_index0 (JArr (x # xs)) = Inr x"
| "get_index0 (JStr []) = Inr JUndefined"
| "get_index0 (JStr (c # cs)) = Inr (JStr [c])"
| "get_index0 (JObj kvs) = get_field (JObj kvs) (ascii ''0'')"
| "get_index0 _ = Inr JUndefined"

text \<open>Sequencing of steps that may throw: the first exception ends the evaluation.\<close>

fun and_then :: "js_error + 'a \<Rightarrow> ('a \<Rightarrow> js_error + 'b) \<Rightarrow> js_error + 'b" where
  "and_then (Inl e) f = Inl e"
| "and_then (Inr x) f = f x"

section \<open>Reading the two responses\<close>

definition not_recognized_msg :: jsstring where
  "not_recognized_msg = [0x672A, 0x80FD, 0x8BC6, 0x522B, 0x56FE, 0x7247, 0x6587, 0x5B57]"

definition translation_failed_msg :: jsstring where
  "translation_failed_msg = [0x7FFB, 0x8BD1, 0x5931, 0x8D25]"

text \<open>
  Lines 40 to 50 of the source, on the parsed body \<open>data\<close>. Each operand of the \<^verbatim>\<open>&&\<close>
  chain is evaluated only when the ones before it are truthy, and each walks the path from
  \<open>data\<close> again.
\<close>

definition candidates0 :: "jsval \<Rightarrow> js_error + jsval" where
  "candidates0 data = and_then (get_field data (ascii ''candidates'')) get_index0"

definition candidates0_content :: "jsval \<Rightarrow> js_error + jsval" where
  "candidates0_content data =
     and_then (candidates0 data) (\<lambda>c. get_field c (ascii ''content''))"

definition candidates0_content_parts :: "jsval \<Rightarrow> js_error + jsval" where
  "candidates0_content_parts data =
     and_then (candidates0_content data) (\<lambda>c. get_field c (ascii ''parts''))"

definition candidates0_content_parts0_text :: "jsval \<Rightarrow> js_error + jsval" where
  "candidates0_content_parts0_text data =
     and_then (and_then (candidates0_content_parts data) get_index0)
       (\<lambda>p. get_field p (ascii ''text''))"

definition recognize_extract :: "jsval \<Rightarrow> js_error + jsval" where
  "recognize_extract data =
     (if \<not> truthy data then Inr (JStr not_recognized_msg)
      else and_then (get_field data (ascii ''candidates'')) (\<lambda>v1.
        if \<not> truthy v1 then Inr (JStr not_recognized_msg)
        else and_then (candidates0 data) (\<lambda>v2.
          if \<not> truthy v2 then Inr (JStr not_recognized_msg)
          else and_then (candidates0_content data) (\<lambda>v3.
            if \<not> truthy v3 then Inr (JStr not_recognized_msg)
            else and_then (candidates0_content_parts data) (\<lambda>v4.
              if \<not> truthy v4 then Inr (JStr not_recognized_msg)
              else and_then (candidates0_content_parts0_text data) (\<lambda>v5.
                if \<not> truthy v5 then Inr (JStr not_recognized_msg)
                else candidates0_content_parts0_text data))))))"

text \<open>Lines 88 to 91 of the source, on the parsed body \<open>data\<close>.\<close>

definition translateResult0 :: "jsval \<Rightarrow> js_error + jsval" where
  "translateResult0 data = and_then (get_field data (ascii ''translateResult'')) get_index0"

definition translateResult00 :: "jsval \<Rightarrow> js_error + jsval" where
  "translateResult00 data = and_then (translateResult0 data) get_index0"

definition translate_extract :: "jsval \<Rightarrow> js_error + jsval" where
  "translate_extract data =
     (if \<not> truthy data then Inr (JStr translation_failed_msg)
      else and_then (get_field data (ascii ''translateResult'')) (\<lambda>v1.
        if \<not> truthy v1 then Inr (JStr translation_failed_msg)
        else and_then (translateResult0 data) (\<lambda>v2.
          if \<not> truthy v2 then Inr (JStr translation_failed_msg)
          else and_then (translateResult00 data) (\<lambda>v3.
            if \<not> truthy v3 then Inr (JStr translation_failed_msg)
            else and_then (translateResult00 data) (\<lambda>v. get_field v (ascii ''tgt''))))))"

section \<open>Strings, blobs and the platform\<close>

text \<open>
  \<^verbatim>\<open>String.prototype.trim\<close> removes white space and line terminators from both ends.
\<close>

definition is_js_space :: "16 word \<Rightarrow> bool" where
  "is_js_space c =
     (c \<in> set [0x0009, 0x000A, 0x000B, 0x000C, 0x000D, 0x0020, 0x00A0, 0x1680,
                0x2028, 0x2029, 0x202F, 0x205F, 0x3000, 0xFEFF]
      \<or> (0x2000 \<le> c \<and> c \<le> 0x200A))"

definition trim :: "jsstring \<Rightarrow> jsstring" where
  "trim s = rev (dropWhile is_js_space (rev (dropWhile is_js_space s)))"

definition starts_with :: "jsstring \<Rightarrow> jsstring \<Rightarrow> bool" where
  "starts_with s p = (take (length p) s = p)"

text \<open>
  \<^verbatim>\<open>base64Image.replace(/^data:.+;base64,/, "")\<close>: the match starts at the first code unit,
  \<^verbatim>\<open>.+\<close> takes at least one code unit and no line terminator, and being greedy it ends at
  the last \<^verbatim>\<open>;base64,\<close> it can reach. Without a match the string is unchanged.
\<close>

definition is_line_terminator :: "16 word \<Rightarrow> bool" where
  "is_line_terminator c = (c \<in> set [0x000A, 0x000D, 0x2028, 0x2029])"

fun after_last :: "jsstring \<Rightarrow> jsstring \<Rightarrow> jsstring option" where
  "after_last m [] = None"
| "after_last m (x # xs) =
     (case after_last m xs of
        Some r \<Rightarrow> Some r
      | None \<Rightarrow> if starts_with (x # xs) m then Some (drop (length m) (x # xs)) else None)"

definition strip_data_url_prefix :: "jsstring \<Rightarrow> jsstring" where
  "strip_data_url_prefix s =
     (if \<not> starts_with s (ascii ''data:'') then s
      else
        let rest = drop 5 s;
            line = takeWhile (\<lambda>c. \<not> is_line_terminator c) rest;
            beyond = dropWhile (\<lambda>c. \<not> is_line_terminator c) rest
        in case line of
             [] \<Rightarrow> s
           | c # cs \<Rightarrow>
               (case after_last (ascii '';base64,'') cs of
                  None \<Rightarrow> s
                | Some r \<Rightarrow> r @ beyond))"

text \<open>A \<^verbatim>\<open>Blob\<close>: bytes and a MIME type.\<close>

record blob =
  blob_type :: jsstring
  blob_bytes :: "8 word list"

text \<open>
  A \<^verbatim>\<open>ClipboardItem\<close>: its type tags in order, and what \<^verbatim>\<open>getType\<close> resolves to or
  rejects with for a tag.
\<close>

record clip_item =
  item_types :: "jsstring list"
  get_type :: "jsstring \<Rightarrow> js_error + blob"

datatype http_method = GET | POST

text \<open>The body is the value handed to \<^verbatim>\<open>JSON.stringify\<close>.\<close>

record request =
  req_url :: jsstring
  req_method :: http_method
  req_headers :: "(jsstring \<times> jsstring) list"
  req_body :: "jsval option"

text \<open>
  A \<^verbatim>\<open>Response\<close> is represented by what its \<^verbatim>\<open>json()\<close> gives: the parsed body, or the
  rejection when the body is not JSON.
\<close>

type_synonym response = "js_error + jsval"

text \<open>
  The platform the popup runs on. Each field is the outcome of one browser call:
  \<^verbatim>\<open>navigator.clipboard.read()\<close>, \<^verbatim>\<open>FileReader.readAsDataURL\<close>, \<^verbatim>\<open>URL.createObjectURL\<close>,
  \<^verbatim>\<open>encodeURIComponent\<close> (which converts its argument to a string first and throws a
  URIError on a lone surrogate) and \<^verbatim>\<open>fetch\<close>.
\<close>

record env =
  clipboard_read :: "js_error + clip_item list"
  read_as_data_url :: "blob \<Rightarrow> js_error + jsstring"
  create_object_url :: "blob \<Rightarrow> jsstring"
  encode_uri_component :: "jsval \<Rightarrow> js_error + jsstring"
  fetch :: "request \<Rightarrow> js_error + response"

section \<open>Component state and effects\<close>

datatype tab = MainTab | SettingsTab

text \<open>
  The \<^verbatim>\<open>useState\<close> cells of \<^verbatim>\<open>Popup\<close>. The two text cells are declared as strings, yet
  they hold whatever value the two clients return at run time.
\<close>

record popup_state =
  tab :: tab
  imageSrc :: "jsstring option"
  recognizedText :: jsval
  translatedText :: jsval
  loading :: bool
  apiKey :: jsstring
  apiKeyInput :: jsstring

definition initial_state :: popup_state where
  "initial_state =
     \<lparr>tab = MainTab, imageSrc = None, recognizedText = JStr [], translatedText = JStr [],
      loading = False, apiKey = [], apiKeyInput = []\<rparr>"

text \<open>
  Everything a handler does is recorded in order: the state setters, the notices, the
  platform calls, and the entry into the two clients with their arguments.
\<close>

datatype event =
    SetTab tab
  | SetImageSrc "jsstring option"
  | SetRecognizedText jsval
  | SetTranslatedText jsval
  | SetLoading bool
  | SetApiKey jsstring
  | SetApiKeyInput jsstring
  | Alert jsstring
  | StorageSetItem jsstring jsstring
  | ClipboardRead
  | ClipboardGetType jsstring
  | ReadAsDataURL blob
  | CreateObjectURL blob
  | EncodeURIComponent jsval
  | Fetch request
  | ReadJson
  | Enter_recognizeImageWithGemini blob jsstring
  | Enter_translateText jsval

fun apply_ui :: "event \<Rightarrow> popup_state \<Rightarrow> popup_state" where
  "apply_ui (SetTab t) s = s\<lparr>tab := t\<rparr>"
| "apply_ui (SetImageSrc u) s = s\<lparr>imageSrc := u\<rparr>"
| "apply_ui (SetRecognizedText v) s = s\<lparr>recognizedText := v\<rparr>"
| "apply_ui (SetTranslatedText v) s = s\<lparr>translatedText := v\<rparr>"
| "apply_ui (SetLoading b) s = s\<lparr>loading := b\<rparr>"
| "apply_ui (SetApiKey k) s = s\<lparr>apiKey := k\<rparr>"
| "apply_ui (SetApiKeyInput k) s = s\<lparr>apiKeyInput := k\<rparr>"
| "apply_ui _ s = s"

definition ui_after :: "event list \<Rightarrow> popup_state \<Rightarrow> popup_state" where
  "ui_after evs s = foldl (\<lambda>s e. apply_ui e s) s evs"

text \<open>
  \<^verbatim>\<open>localStorage\<close> as a map from keys to strings. A write always stores: the specification
  leaves an unavailable store outside this core.
\<close>

type_synonym storage = "jsstring \<rightharpoonup> jsstring"

fun apply_storage :: "event \<Rightarrow> storage \<Rightarrow> storage" where
  "apply_storage (StorageSetItem k v) st = st(k \<mapsto> v)"
| "apply_storage _ st = st"

definition storage_after :: "event list \<Rightarrow> storage \<Rightarrow> storage" where
  "storage_after evs st = foldl (\<lambda>st e. apply_storage e st) st evs"

text \<open>
  A run of (possibly asynchronous) code: the events so far, and either the value it
  returned or the exception that ended it. \<open>bind_run\<close> is \<^verbatim>\<open>await\<close> and sequencing: an
  exception skips everything after it.
\<close>

type_synonym 'a run = "event list \<times> (js_error + 'a)"

fun bind_run :: "'a run \<Rightarrow> ('a \<Rightarrow> 'b run) \<Rightarrow> 'b run" where
  "bind_run (evs, Inl e) f = (evs, Inl e)"
| "bind_run (evs, Inr x) f = (evs @ fst (f x), snd (f x))"

definition return_run :: "'a \<Rightarrow> 'a run" where
  "return_run x = ([], Inr x)"

definition emit :: "event \<Rightarrow> unit run" where
  "emit ev = ([ev], Inr ())"

definition perform :: "event \<Rightarrow> js_error + 'a \<Rightarrow> 'a run" where
  "perform ev outcome = ([ev], outcome)"

section \<open>The credential store\<close>

definition GEMINI_KEY_STORAGE :: jsstring where
  "GEMINI_KEY_STORAGE = ascii ''gemini_api_key''"

definition saveGeminiApiKey :: "jsstring \<Rightarrow> unit run" where
  "saveGeminiApiKey key = emit (StorageSetItem GEMINI_KEY_STORAGE key)"

text \<open>\<^verbatim>\<open>getItem\<close> gives \<^verbatim>\<open>null\<close> for a key never set; \<^verbatim>\<open>|| ""\<close> turns that into the empty string.\<close>

definition loadGeminiApiKey :: "storage \<Rightarrow> jsstring" where
  "loadGeminiApiKey st =
     (case st GEMINI_KEY_STORAGE of
        None \<Rightarrow> []
      | Some v \<Rightarrow> if v \<noteq> [] then v else [])"

section \<open>The recognition client\<close>

definition no_key_msg :: jsstring where
  "no_key_msg =
     [0x672A, 0x586B, 0x5199, 0x0020, 0x0047, 0x0065, 0x006D, 0x0069, 0x006E, 0x0069,
      0x0020, 0x0041, 0x0050, 0x0049, 0x0020, 0x004B, 0x0065, 0x0079]"

definition instruction_text :: jsstring where
  "instruction_text =
     [0x8BF7, 0x8BC6, 0x522B, 0x56FE, 0x7247, 0x4E2D, 0x7684, 0x6240, 0x6709, 0x4E2D,
      0x6587, 0x548C, 0x82F1, 0x6587, 0x6587, 0x672C]"

text \<open>
  \<^verbatim>\<open>blobToBase64\<close>: the promise resolves with the reader's result, or rejects when the
  reader fails.
\<close>

definition blobToBase64 :: "env \<Rightarrow> blob \<Rightarrow> jsstring run" where
  "blobToBase64 e b = perform (ReadAsDataURL b) (read_as_data_url e b)"

definition recognition_request :: "blob \<Rightarrow> jsstring \<Rightarrow> jsstring \<Rightarrow> request" where
  "recognition_request imageBlob base64Image key =
     \<lparr>req_url =
        ascii ''https://generativelanguage.googleapis.com/v1beta/models/gemini-pro-vision:generateContent?key=''
          @ key,
      req_method = POST,
      req_headers = [(ascii ''Content-Type'', ascii ''application/json'')],
      req_body = Some (JObj [(ascii ''contents'', JArr [JObj [(ascii ''parts'', JArr
        [JObj [(ascii ''inline_data'', JObj
           [(ascii ''mime_type'', JStr (blob_type imageBlob)),
            (ascii ''data'', JStr (strip_data_url_prefix base64Image))])],
         JObj [(ascii ''text'', JStr instruction_text)]])]])])\<rparr>"

definition recognizeImageWithGemini :: "env \<Rightarrow> blob \<Rightarrow> jsstring \<Rightarrow> jsval run" where
  "recognizeImageWithGemini e imageBlob key =
     bind_run (emit (Enter_recognizeImageWithGemini imageBlob key)) (\<lambda>_.
       if key = [] then return_run (JStr no_key_msg)
       else
         bind_run (blobToBase64 e imageBlob) (\<lambda>base64Image.
         bind_run (perform (Fetch (recognition_request imageBlob base64Image key))
                     (fetch e (recognition_request imageBlob base64Image key))) (\<lambda>response.
         bind_run (perform ReadJson response) (\<lambda>data.
         ([], recognize_extract data)))))"

section \<open>The clipboard source\<close>

definition clipboard_failed_msg :: jsstring where
  "clipboard_failed_msg =
     [0x83B7, 0x53D6, 0x526A, 0x8D34, 0x677F, 0x56FE, 0x7247, 0x5931, 0x8D25, 0xFF0C,
      0x8BF7, 0x786E, 0x8BA4, 0x5DF2, 0x6388, 0x6743, 0x6D4F, 0x89C8, 0x5668, 0x8BBF,
      0x95EE, 0x526A, 0x8D34, 0x677F, 0xFF0C, 0x5E76, 0x4F7F, 0x7528, 0x65B0, 0x7248,
      0x0020, 0x0043, 0x0068, 0x0072, 0x006F, 0x006D, 0x0065, 0x3002]"

text \<open>
  The two loops of \<^verbatim>\<open>getImageFromClipboard\<close>. \<open>Some blob\<close> is the \<^verbatim>\<open>return blob\<close> inside
  the loops, \<open>None\<close> means the loop ran to its end.
\<close>

fun scan_types :: "clip_item \<Rightarrow> jsstring list \<Rightarrow> blob option run" where
  "scan_types item [] = return_run None"
| "scan_types item (t # ts) =
     (if starts_with t (ascii ''image/'')
      then bind_run (perform (ClipboardGetType t) (get_type item t)) (\<lambda>blob.
             return_run (Some blob))
      else scan_types item ts)"

fun scan_items :: "clip_item list \<Rightarrow> blob option run" where
  "scan_items [] = return_run None"
| "scan_items (item # items) =
     bind_run (scan_types item (item_types item)) (\<lambda>found.
       case found of
         Some blob \<Rightarrow> return_run (Some blob)
       | None \<Rightarrow> scan_items items)"

text \<open>
  The \<^verbatim>\<open>try\<close> block covers the read and both loops; the \<^verbatim>\<open>catch\<close> shows the notice and
  falls through to \<^verbatim>\<open>return null\<close>.
\<close>

definition getImageFromClipboard :: "env \<Rightarrow> blob option run" where
  "getImageFromClipboard e =
     (case bind_run (perform ClipboardRead (clipboard_read e)) scan_items of
        (evs, Inl err) \<Rightarrow> (evs @ [Alert clipboard_failed_msg], Inr None)
      | (evs, Inr found) \<Rightarrow> (evs, Inr found))"

section \<open>The translation client\<close>

definition translation_request :: "jsstring \<Rightarrow> request" where
  "translation_request encoded =
     \<lparr>req_url = ascii ''https://fanyi.youdao.com/translate?&doctype=json&type=AUTO&i='' @ encoded,
      req_method = GET,
      req_headers = [],
      req_body = None\<rparr>"

definition translateText :: "env \<Rightarrow> jsval \<Rightarrow> jsval run" where
  "translateText e text =
     bind_run (emit (Enter_translateText text)) (\<lambda>_.
     bind_run (perform (EncodeURIComponent text) (encode_uri_component e text)) (\<lambda>encoded.
     bind_run (perform (Fetch (translation_request encoded))
                 (fetch e (translation_request encoded))) (\<lambda>response.
     bind_run (perform ReadJson response) (\<lambda>data.
     ([], translate_extract data)))))"

section \<open>The popup's handlers\<close>

definition missing_key_msg :: jsstring where
  "missing_key_msg =
     [0x8BF7, 0x5148, 0x5728, 0x8BBE, 0x7F6E, 0x4E2D, 0x586B, 0x5199, 0x0020, 0x0047,
      0x0065, 0x006D, 0x0069, 0x006E, 0x0069, 0x0020, 0x0041, 0x0050, 0x0049, 0x0020,
      0x004B, 0x0065, 0x0079, 0xFF01]"

definition no_image_msg :: jsstring where
  "no_image_msg =
     [0x672A, 0x68C0, 0x6D4B, 0x5230, 0x526A, 0x8D34, 0x677F, 0x4E2D, 0x7684, 0x56FE,
      0x7247, 0xFF0C, 0x8BF7, 0x7528, 0x0020, 0x0057, 0x0069, 0x006E, 0x002B, 0x0053,
      0x0068, 0x0069, 0x0066, 0x0074, 0x002B, 0x0053, 0x0020, 0x622A, 0x56FE, 0xFF0C,
      0x7136, 0x540E, 0x518D, 0x70B9, 0x51FB, 0x6309, 0x94AE, 0x3002]"

definition key_saved_msg :: jsstring where
  "key_saved_msg =
     [0x0047, 0x0065, 0x006D, 0x0069, 0x006E, 0x0069, 0x0020, 0x0041, 0x0050, 0x0049,
      0x0020, 0x004B, 0x0065, 0x0079, 0x0020, 0x5DF2, 0x4FDD, 0x5B58, 0xFF01]"

text \<open>The \<^verbatim>\<open>useEffect\<close> that runs once when the popup opens.\<close>

definition mount_effect :: "storage \<Rightarrow> unit run" where
  "mount_effect st =
     bind_run (emit (SetApiKey (loadGeminiApiKey st))) (\<lambda>_.
     emit (SetApiKeyInput (loadGeminiApiKey st)))"

text \<open>
  \<^verbatim>\<open>handleScreenshotTranslate\<close>, run in the render whose state is \<open>s\<close>: the \<^verbatim>\<open>apiKey\<close> it
  reads is the one of that render.
\<close>

definition handleScreenshotTranslate :: "env \<Rightarrow> popup_state \<Rightarrow> unit run" where
  "handleScreenshotTranslate e s =
     bind_run (emit (SetLoading True)) (\<lambda>_.
     bind_run (emit (SetRecognizedText (JStr []))) (\<lambda>_.
     bind_run (emit (SetTranslatedText (JStr []))) (\<lambda>_.
     bind_run (emit (SetImageSrc None)) (\<lambda>_.
       if apiKey s = [] then
         bind_run (emit (SetLoading False)) (\<lambda>_.
         bind_run (emit (Alert missing_key_msg)) (\<lambda>_.
         emit (SetTab SettingsTab)))
       else
         bind_run (getImageFromClipboard e) (\<lambda>imageBlob.
           case imageBlob of
             None \<Rightarrow>
               bind_run (emit (SetLoading False)) (\<lambda>_.
               emit (Alert no_image_msg))
           | Some blob \<Rightarrow>
               bind_run (perform (CreateObjectURL blob) (Inr (create_object_url e blob))) (\<lambda>imageUrl.
               bind_run (emit (SetImageSrc (Some imageUrl))) (\<lambda>_.
               bind_run (recognizeImageWithGemini e blob (apiKey s)) (\<lambda>text.
               bind_run (emit (SetRecognizedText text)) (\<lambda>_.
               bind_run (translateText e text) (\<lambda>translated.
               bind_run (emit (SetTranslatedText translated)) (\<lambda>_.
               emit (SetLoading False))))))))))))"

definition handleSaveKey :: "popup_state \<Rightarrow> unit run" where
  "handleSaveKey s =
     bind_run (saveGeminiApiKey (trim (apiKeyInput s))) (\<lambda>_.
     bind_run (emit (SetApiKey (trim (apiKeyInput s)))) (\<lambda>_.
     bind_run (emit (Alert key_saved_msg)) (\<lambda>_.
     emit (SetTab MainTab))))"

section \<open>Example runs\<close>

text \<open>
  Concrete responses, a concrete clipboard and a concrete platform, for evaluating the
  handlers. The platform's \<^verbatim>\<open>encodeURIComponent\<close> is tabulated on the three texts that the
  examples pass to it; recognition is the only POST request.
\<close>

definition text_response :: "jsval \<Rightarrow> jsval" where
  "text_response t =
     JObj [(ascii ''candidates'', JArr [JObj [(ascii ''content'', JObj
       [(ascii ''parts'', JArr [JObj [(ascii ''text'', t)]])])]])]"

definition empty_parts_response :: jsval where
  "empty_parts_response =
     JObj [(ascii ''candidates'', JArr [JObj [(ascii ''content'', JObj
       [(ascii ''parts'', JArr [])])]])]"

definition tgt_response :: "jsval \<Rightarrow> jsval" where
  "tgt_response t = JObj [(ascii ''translateResult'', JArr [JArr [JObj [(ascii ''tgt'', t)]]])]"

definition missing_tgt_response :: jsval where
  "missing_tgt_response =
     JObj [(ascii ''translateResult'', JArr [JArr [JObj [(ascii ''src'', JStr (ascii ''Hello''))]]])]"

definition sample_blob :: blob where
  "sample_blob = \<lparr>blob_type = ascii ''image/png'', blob_bytes = [0x89, 0x50, 0x4E, 0x47]\<rparr>"

definition sample_item :: clip_item where
  "sample_item =
     \<lparr>item_types = [ascii ''text/plain'', ascii ''image/png''],
      get_type = (\<lambda>t. Inr sample_blob)\<rparr>"

definition sample_encode :: "jsval \<Rightarrow> js_error + jsstring" where
  "sample_encode v =
     (if v = JStr (ascii ''Hello'') then Inr (ascii ''Hello'')
      else if v = JStr not_recognized_msg then
        Inr (ascii ''%E6%9C%AA%E8%83%BD%E8%AF%86%E5%88%AB%E5%9B%BE%E7%89%87%E6%96%87%E5%AD%97'')
      else if v = JStr no_key_msg then
        Inr (ascii ''%E6%9C%AA%E5%A1%AB%E5%86%99%20Gemini%20API%20Key'')
      else Inl URIError)"

definition sample_env ::
  "(js_error + clip_item list) \<Rightarrow> (js_error + response) \<Rightarrow> (js_error + response) \<Rightarrow> env" where
  "sample_env clip recognition translation =
     \<lparr>clipboard_read = clip,
      read_as_data_url = (\<lambda>b. Inr (ascii ''data:image/png;base64,iVBORw=='')),
      create_object_url = (\<lambda>b. ascii ''blob:popup/1''),
      encode_uri_component = sample_encode,
      fetch = (\<lambda>req. if req_method req = POST then recognition else translation)\<rparr>"

definition keyed_state :: popup_state where
  "keyed_state = initial_state\<lparr>apiKey := ascii ''ABC123'', apiKeyInput := ascii ''ABC123''\<rparr>"

definition nihao :: jsstring where
  "nihao = [0x4F60, 0x597D]"

definition no_candidates_response :: jsval where
  "no_candidates_response = JObj [(ascii ''promptFeedback'', JObj [])]"

definition sample_data_url :: jsstring where
  "sample_data_url = ascii ''data:image/png;base64,iVBORw==''"

definition empty_storage :: storage where
  "empty_storage = Map.empty"

text \<open>Recognition reads \<^verbatim>\<open>Hello\<close>, translation answers with its Chinese rendering.\<close>

definition hello_env :: env where
  "hello_env =
     sample_env (Inr [sample_item]) (Inr (Inr (text_response (JStr (ascii ''Hello'')))))
       (Inr (Inr (tgt_response (JStr nihao))))"

text \<open>The recognition body has no \<^verbatim>\<open>candidates\<close>; translation answers.\<close>

definition unrecognized_env :: env where
  "unrecognized_env =
     sample_env (Inr [sample_item]) (Inr (Inr no_candidates_response))
       (Inr (Inr (tgt_response (JStr (ascii ''Unrecognized image text'')))))"

text \<open>The recognition body has no \<^verbatim>\<open>candidates\<close>; the translation request fails in transit.\<close>

definition offline_translation_env :: env where
  "offline_translation_env =
     sample_env (Inr [sample_item]) (Inr (Inr no_candidates_response)) (Inl NetworkError)"

text \<open>The recognition service answers, but its body is not JSON.\<close>

definition html_body_env :: env where
  "html_body_env =
     sample_env (Inr [sample_item]) (Inr (Inl SyntaxError)) (Inr (Inr (tgt_response (JStr nihao))))"

text \<open>The translation body has a first entry without \<^verbatim>\<open>tgt\<close>.\<close>

definition missing_tgt_env :: env where
  "missing_tgt_env =
     sample_env (Inr [sample_item]) (Inr (Inr (text_response (JStr (ascii ''Hello'')))))
       (Inr (Inr missing_tgt_response))"

text \<open>
  The screenshot shows the words of the missing-key message, and both services return
  them unchanged.
\<close>

definition echo_env :: env where
  "echo_env =
     sample_env (Inr [sample_item]) (Inr (Inr (text_response (JStr no_key_msg))))
       (Inr (Inr (tgt_response (JStr no_key_msg))))"

text \<open>Reading the clipboard is refused.\<close>

definition denied_env :: env where
  "denied_env = sample_env (Inl NotAllowedError) (Inl NetworkError) (Inl NetworkError)"

text \<open>The recognition body has the whole path, and its text is the empty string.\<close>

definition empty_text_env :: env where
  "empty_text_env =
     sample_env (Inr [sample_item]) (Inr (Inr (text_response (JStr []))))
       (Inr (Inr (tgt_response (JStr nihao))))"

text \<open>The recognition body has the whole path, and its text is \<^verbatim>\<open>null\<close>.\<close>

definition null_text_env :: env where
  "null_text_env =
     sample_env (Inr [sample_item]) (Inr (Inr (text_response JNull)))
       (Inr (Inr (tgt_response (JStr nihao))))"

text \<open>The recognition body is the JSON value \<^verbatim>\<open>null\<close>.\<close>

definition null_body_env :: env where
  "null_body_env =
     sample_env (Inr [sample_item]) (Inr (Inr JNull)) (Inr (Inr (tgt_response (JStr nihao))))"

text \<open>The recognition body has \<^verbatim>\<open>parts\<close>, and it is the empty array.\<close>

definition empty_parts_env :: env where
  "empty_parts_env =
     sample_env (Inr [sample_item]) (Inr (Inr empty_parts_response))
       (Inr (Inr (tgt_response (JStr nihao))))"

section \<open>Basic facts about the model\<close>

lemmas model_defs =
  handleScreenshotTranslate_def getImageFromClipboard_def recognizeImageWithGemini_def
  translateText_def blobToBase64_def emit_def perform_def return_run_def
  recognition_request_def translation_request_def

lemmas extract_defs =
  recognize_extract_def candidates0_def candidates0_content_def candidates0_content_parts_def
  candidates0_content_parts0_text_def translate_extract_def translateResult0_def
  translateResult00_def

lemmas string_defs =
  starts_with_def ascii_def not_recognized_msg_def no_key_msg_def translation_failed_msg_def

lemmas sample_defs =
  sample_env_def sample_item_def sample_blob_def sample_encode_def keyed_state_def
  initial_state_def

lemma bind_run_eq:
  "bind_run r f =
     (case snd r of Inl err \<Rightarrow> (fst r, Inl err) | Inr x \<Rightarrow> (fst r @ fst (f x), snd (f x)))"
  by (cases r; cases "snd r") auto

lemma and_then_eq:
  "and_then r f = (case r of Inl err \<Rightarrow> Inl err | Inr x \<Rightarrow> f x)"
  by (cases r) auto

subsection \<open>Property reads\<close>

lemma truthy_get_field: "truthy v \<Longrightarrow> \<exists>w. get_field v k = Inr w"
  by (cases v) (auto split: option.splits)

lemma get_field_throws: "get_field v k = Inl err \<Longrightarrow> \<not> truthy v"
  by (cases v) (auto split: option.splits)

lemma get_index0_throws: "get_index0 v = Inl err \<Longrightarrow> \<not> truthy v"
  by (cases v rule: get_index0.cases) (auto split: option.splits)

lemma get_field_truthy_parent: "get_field v k = Inr w \<Longrightarrow> truthy w \<Longrightarrow> truthy v"
  by (cases v) (auto split: option.splits)

lemma get_index0_truthy_parent: "get_index0 v = Inr w \<Longrightarrow> truthy w \<Longrightarrow> truthy v"
  by (cases v rule: get_index0.cases) (auto split: option.splits)

text \<open>
  The guard of \<^verbatim>\<open>translateText\<close> tests every value it reads a property from, so reading
  the translation body never throws.
\<close>

lemma translate_extract_returns: "\<exists>v. translate_extract data = Inr v"
  unfolding translate_extract_def translateResult00_def translateResult0_def
  by (auto simp: and_then_eq truthy_get_field dest: get_field_throws get_index0_throws
           split: if_splits sum.splits)

lemma translate_extract_cases:
  "translate_extract data = Inr v \<Longrightarrow>
     v = JStr translation_failed_msg \<or>
     and_then (translateResult00 data) (\<lambda>r. get_field r (ascii ''tgt'')) = Inr v"
  unfolding translate_extract_def
  by (auto simp: and_then_eq split: if_splits sum.splits)

lemma recognize_extract_cases:
  "recognize_extract data = Inr v \<Longrightarrow>
     v = JStr not_recognized_msg \<or> (candidates0_content_parts0_text data = Inr v \<and> truthy v)"
  unfolding recognize_extract_def
  by (auto simp: and_then_eq split: if_splits sum.splits)

subsection \<open>State after a list of events\<close>

lemma ui_after_Nil: "ui_after [] s = s"
  by (simp add: ui_after_def)

lemma ui_after_Cons: "ui_after (ev # evs) s = ui_after evs (apply_ui ev s)"
  by (simp add: ui_after_def)

lemma ui_after_append: "ui_after (xs @ ys) s = ui_after ys (ui_after xs s)"
  by (simp add: ui_after_def)

lemma ui_after_unchanged:
  "(\<And>ev. ev \<in> set evs \<Longrightarrow> apply_ui ev s = s) \<Longrightarrow> ui_after evs s = s"
  unfolding ui_after_def by (induction evs) auto

subsection \<open>Events of the three collaborators\<close>

lemma scan_types_events:
  "ev \<in> set (fst (scan_types item ts)) \<Longrightarrow> \<exists>t. ev = ClipboardGetType t"
  by (induction ts) (auto simp: emit_def perform_def return_run_def bind_run_eq
                          split: if_splits sum.splits)

lemma scan_items_events:
  "ev \<in> set (fst (scan_items items)) \<Longrightarrow> \<exists>t. ev = ClipboardGetType t"
  by (induction items)
     (auto simp: emit_def perform_def return_run_def bind_run_eq dest: scan_types_events
           split: if_splits sum.splits option.splits)

lemma getImageFromClipboard_events:
  "ev \<in> set (fst (getImageFromClipboard e)) \<Longrightarrow>
     ev = ClipboardRead \<or> ev = Alert clipboard_failed_msg \<or> (\<exists>t. ev = ClipboardGetType t)"
  by (auto simp: getImageFromClipboard_def emit_def perform_def return_run_def bind_run_eq
           dest: scan_items_events split: sum.splits prod.splits)

lemma getImageFromClipboard_returns: "\<exists>found. snd (getImageFromClipboard e) = Inr found"
  by (auto simp: getImageFromClipboard_def split: sum.splits prod.splits)

lemma ui_after_getImageFromClipboard: "ui_after (fst (getImageFromClipboard e)) s = s"
  by (rule ui_after_unchanged) (auto dest: getImageFromClipboard_events)

lemma recognize_events:
  "ev \<in> set (fst (recognizeImageWithGemini e b key)) \<Longrightarrow>
     ev = Enter_recognizeImageWithGemini b key \<or> ev = ReadAsDataURL b \<or> ev = ReadJson \<or>
     (\<exists>req. ev = Fetch req)"
  by (auto simp: recognizeImageWithGemini_def blobToBase64_def emit_def perform_def
             return_run_def bind_run_eq
           split: if_splits sum.splits)

lemma translate_events:
  "ev \<in> set (fst (translateText e t)) \<Longrightarrow>
     ev = Enter_translateText t \<or> ev = EncodeURIComponent t \<or> ev = ReadJson \<or>
     (\<exists>req. ev = Fetch req)"
  by (auto simp: translateText_def emit_def perform_def return_run_def bind_run_eq
           split: if_splits sum.splits)

lemma translate_enters: "Enter_translateText t \<in> set (fst (translateText e t))"
  by (simp add: translateText_def emit_def perform_def return_run_def bind_run_eq)

lemma ui_after_recognize: "ui_after (fst (recognizeImageWithGemini e b k)) s = s"
  by (simp add: recognizeImageWithGemini_def blobToBase64_def emit_def perform_def
        return_run_def bind_run_eq ui_after_def split: sum.splits)

lemma ui_after_translate: "ui_after (fst (translateText e t)) s = s"
  by (simp add: translateText_def emit_def perform_def return_run_def bind_run_eq ui_after_def
           split: sum.splits)

lemma recognize_answered:
  "key \<noteq> [] \<Longrightarrow> read_as_data_url e b = Inr d \<Longrightarrow>
   fetch e (recognition_request b d key) = Inr (Inr data) \<Longrightarrow>
   recognizeImageWithGemini e b key =
     ([Enter_recognizeImageWithGemini b key, ReadAsDataURL b,
       Fetch (recognition_request b d key), ReadJson], recognize_extract data)"
  by (simp add: recognizeImageWithGemini_def blobToBase64_def emit_def perform_def)

lemma translate_answered:
  "encode_uri_component e t = Inr u \<Longrightarrow> fetch e (translation_request u) = Inr (Inr data) \<Longrightarrow>
   translateText e t =
     ([Enter_translateText t, EncodeURIComponent t, Fetch (translation_request u), ReadJson],
      translate_extract data)"
  by (simp add: translateText_def emit_def perform_def)

lemma recognize_returned:
  "key \<noteq> [] \<Longrightarrow> snd (recognizeImageWithGemini e b key) = Inr t \<Longrightarrow>
     \<exists>req data. Fetch req \<in> set (fst (recognizeImageWithGemini e b key)) \<and>
       fetch e req = Inr (Inr data) \<and> recognize_extract data = Inr t"
  by (auto simp: recognizeImageWithGemini_def blobToBase64_def emit_def perform_def
             return_run_def bind_run_eq
           split: if_splits sum.splits)

lemma translate_returned:
  "snd (translateText e t) = Inr v \<Longrightarrow>
     \<exists>req data. Fetch req \<in> set (fst (translateText e t)) \<and>
       fetch e req = Inr (Inr data) \<and> translate_extract data = Inr v"
  by (auto simp: translateText_def emit_def perform_def return_run_def bind_run_eq
           split: if_splits sum.splits)

subsection \<open>The three ways a run of the pipeline can go\<close>

lemma handle_no_key:
  "apiKey s = [] \<Longrightarrow>
   handleScreenshotTranslate e s =
     ([SetLoading True, SetRecognizedText (JStr []), SetTranslatedText (JStr []),
       SetImageSrc None, SetLoading False, Alert missing_key_msg, SetTab SettingsTab], Inr ())"
  by (simp add: handleScreenshotTranslate_def emit_def)

lemma handle_no_image:
  "apiKey s \<noteq> [] \<Longrightarrow> snd (getImageFromClipboard e) = Inr None \<Longrightarrow>
   handleScreenshotTranslate e s =
     ([SetLoading True, SetRecognizedText (JStr []), SetTranslatedText (JStr []),
       SetImageSrc None]
        @ fst (getImageFromClipboard e) @ [SetLoading False, Alert no_image_msg], Inr ())"
  by (simp add: handleScreenshotTranslate_def emit_def bind_run_eq)

lemma handle_image:
  "apiKey s \<noteq> [] \<Longrightarrow> snd (getImageFromClipboard e) = Inr (Some b) \<Longrightarrow>
   handleScreenshotTranslate e s =
     (let pre = [SetLoading True, SetRecognizedText (JStr []), SetTranslatedText (JStr []),
                 SetImageSrc None]
            @ fst (getImageFromClipboard e)
            @ [CreateObjectURL b, SetImageSrc (Some (create_object_url e b))]
            @ fst (recognizeImageWithGemini e b (apiKey s))
      in case snd (recognizeImageWithGemini e b (apiKey s)) of
           Inl err \<Rightarrow> (pre, Inl err)
         | Inr t \<Rightarrow>
            (case snd (translateText e t) of
               Inl err \<Rightarrow> (pre @ [SetRecognizedText t] @ fst (translateText e t), Inl err)
             | Inr v \<Rightarrow> (pre @ [SetRecognizedText t] @ fst (translateText e t)
                           @ [SetTranslatedText v, SetLoading False], Inr ())))"
  by (simp add: handleScreenshotTranslate_def emit_def perform_def bind_run_eq Let_def
           split: sum.splits)

lemma handle_events:
  assumes "apiKey s \<noteq> []" "snd (getImageFromClipboard e) = Inr (Some b)"
  shows "set (fst (handleScreenshotTranslate e s)) \<subseteq>
     {SetLoading True, SetRecognizedText (JStr []), SetTranslatedText (JStr []), SetImageSrc None,
      CreateObjectURL b, SetImageSrc (Some (create_object_url e b)), SetLoading False}
     \<union> set (fst (getImageFromClipboard e))
     \<union> set (fst (recognizeImageWithGemini e b (apiKey s)))
     \<union> (case snd (recognizeImageWithGemini e b (apiKey s)) of
          Inl err \<Rightarrow> {}
        | Inr t \<Rightarrow> {SetRecognizedText t} \<union> set (fst (translateText e t))
            \<union> (case snd (translateText e t) of Inl err \<Rightarrow> {} | Inr v \<Rightarrow> {SetTranslatedText v}))"
  using assms by (auto simp: handle_image Let_def split: sum.splits)

lemma handle_completed:
  assumes "apiKey s \<noteq> []" "snd (getImageFromClipboard e) = Inr (Some b)"
    "snd (recognizeImageWithGemini e b (apiKey s)) = Inr t" "snd (translateText e t) = Inr v"
  shows "snd (handleScreenshotTranslate e s) = Inr ()"
    and "loading (ui_after (fst (handleScreenshotTranslate e s)) s) = False"
    and "recognizedText (ui_after (fst (handleScreenshotTranslate e s)) s) = t"
    and "translatedText (ui_after (fst (handleScreenshotTranslate e s)) s) = v"
  using assms
  by (simp_all add: handle_image ui_after_append ui_after_Cons ui_after_Nil
        ui_after_getImageFromClipboard ui_after_recognize ui_after_translate)

lemma handle_recognized:
  assumes "apiKey s \<noteq> []" "snd (getImageFromClipboard e) = Inr (Some b)"
    "snd (recognizeImageWithGemini e b (apiKey s)) = Inr t"
  shows "recognizedText (ui_after (fst (handleScreenshotTranslate e s)) s) = t"
  using assms
  by (simp add: handle_image Let_def ui_after_append ui_after_Cons ui_after_Nil
        ui_after_getImageFromClipboard ui_after_recognize ui_after_translate split: sum.splits)

section \<open>The credential gate\<close>

text \<open>
  C4. A run started while the in-memory credential is empty performs exactly seven
  steps: the four resets, \<^verbatim>\<open>setLoading(false)\<close>, the missing-credential notice and the
  switch to the settings view, and then returns. It reads no clipboard and sends no
  request, and afterwards the recognized text and the translated text are the empty
  string, the image reference is null and the loading flag is off.
\<close>

theorem missing_credential_stops_run:
  "apiKey s = [] \<Longrightarrow>
     handleScreenshotTranslate e s =
       ([SetLoading True, SetRecognizedText (JStr []), SetTranslatedText (JStr []),
         SetImageSrc None, SetLoading False, Alert missing_key_msg, SetTab SettingsTab], Inr ()) \<and>
     ClipboardRead \<notin> set (fst (handleScreenshotTranslate e s)) \<and>
     (\<forall>req. Fetch req \<notin> set (fst (handleScreenshotTranslate e s))) \<and>
     recognizedText (ui_after (fst (handleScreenshotTranslate e s)) s) = JStr [] \<and>
     translatedText (ui_after (fst (handleScreenshotTranslate e s)) s) = JStr [] \<and>
     imageSrc (ui_after (fst (handleScreenshotTranslate e s)) s) = None \<and>
     tab (ui_after (fst (handleScreenshotTranslate e s)) s) = SettingsTab \<and>
     loading (ui_after (fst (handleScreenshotTranslate e s)) s) = False"
  by (simp add: handle_no_key ui_after_def)

text \<open>
  The popup as first opened, with an image on the clipboard and both services ready to
  answer: the run stops at the gate.
\<close>

theorem missing_credential_stops_run_witness:
  "apiKey initial_state = [] \<and>
   fst (handleScreenshotTranslate hello_env initial_state) =
     [SetLoading True, SetRecognizedText (JStr []), SetTranslatedText (JStr []),
      SetImageSrc None, SetLoading False, Alert missing_key_msg, SetTab SettingsTab] \<and>
   tab (ui_after (fst (handleScreenshotTranslate hello_env initial_state)) initial_state)
     = SettingsTab"
proof -
  have gate: "apiKey initial_state = []"
    by (simp add: initial_state_def)
  show ?thesis
    using missing_credential_stops_run [OF gate, of hello_env] gate by auto
qed

text \<open>
  C8. Whatever the state and the platform, the first four steps of a run are
  \<^verbatim>\<open>setLoading(true)\<close>, \<^verbatim>\<open>setRecognizedText("")\<close>, \<^verbatim>\<open>setTranslatedText("")\<close> and
  \<^verbatim>\<open>setImageSrc(null)\<close>. They come before the credential is looked at (the statement does
  not depend on it) and before any clipboard read, notice or request, and after them the
  loading flag is on and the three result fields are cleared.
\<close>

theorem run_starts_by_clearing:
  "take 4 (fst (handleScreenshotTranslate e s)) =
     [SetLoading True, SetRecognizedText (JStr []), SetTranslatedText (JStr []),
      SetImageSrc None] \<and>
   loading (ui_after (take 4 (fst (handleScreenshotTranslate e s))) s) = True \<and>
   recognizedText (ui_after (take 4 (fst (handleScreenshotTranslate e s))) s) = JStr [] \<and>
   translatedText (ui_after (take 4 (fst (handleScreenshotTranslate e s))) s) = JStr [] \<and>
   imageSrc (ui_after (take 4 (fst (handleScreenshotTranslate e s))) s) = None"
proof -
  have "take 4 (fst (handleScreenshotTranslate e s)) =
     [SetLoading True, SetRecognizedText (JStr []), SetTranslatedText (JStr []),
      SetImageSrc None]"
    by (simp add: handleScreenshotTranslate_def emit_def bind_run_eq)
  then show ?thesis by (simp add: ui_after_def)
qed

section \<open>The clipboard notices\<close>

text \<open>
  C7. In a run that reads the clipboard and whose read throws, the capture step itself
  shows the access notice before it returns null; the controller then shows its own
  no-image notice, and the two messages are different strings.
\<close>

theorem clipboard_denied_notice:
  "clipboard_read e = Inl err \<Longrightarrow>
   ClipboardRead \<in> set (fst (handleScreenshotTranslate e s)) \<Longrightarrow>
     getImageFromClipboard e = ([ClipboardRead, Alert clipboard_failed_msg], Inr None) \<and>
     handleScreenshotTranslate e s =
       ([SetLoading True, SetRecognizedText (JStr []), SetTranslatedText (JStr []),
         SetImageSrc None, ClipboardRead, Alert clipboard_failed_msg, SetLoading False,
         Alert no_image_msg], Inr ()) \<and>
     clipboard_failed_msg \<noteq> no_image_msg"
proof -
  assume denied: "clipboard_read e = Inl err"
    and reads: "ClipboardRead \<in> set (fst (handleScreenshotTranslate e s))"
  have key: "apiKey s \<noteq> []"
  proof
    assume "apiKey s = []"
    then have "ClipboardRead \<notin> set (fst (handleScreenshotTranslate e s))"
      by (simp add: handle_no_key)
    with reads show False by simp
  qed
  have capture: "getImageFromClipboard e = ([ClipboardRead, Alert clipboard_failed_msg], Inr None)"
    using denied by (simp add: getImageFromClipboard_def perform_def)
  have "handleScreenshotTranslate e s =
       ([SetLoading True, SetRecognizedText (JStr []), SetTranslatedText (JStr []),
         SetImageSrc None, ClipboardRead, Alert clipboard_failed_msg, SetLoading False,
         Alert no_image_msg], Inr ())"
    using handle_no_image [of s e] key capture by simp
  moreover have "clipboard_failed_msg \<noteq> no_image_msg"
    by (simp add: clipboard_failed_msg_def no_image_msg_def)
  ultimately show ?thesis using capture by simp
qed

text \<open>A stored credential and a browser that refuses the read.\<close>

theorem clipboard_denied_notice_witness:
  "clipboard_read denied_env = Inl NotAllowedError \<and>
   ClipboardRead \<in> set (fst (handleScreenshotTranslate denied_env keyed_state)) \<and>
   fst (handleScreenshotTranslate denied_env keyed_state) =
     [SetLoading True, SetRecognizedText (JStr []), SetTranslatedText (JStr []),
      SetImageSrc None, ClipboardRead, Alert clipboard_failed_msg, SetLoading False,
      Alert no_image_msg]"
proof -
  have a: "clipboard_read denied_env = Inl NotAllowedError"
    by (simp add: denied_env_def sample_env_def)
  have b: "ClipboardRead \<in> set (fst (handleScreenshotTranslate denied_env keyed_state))"
    by (simp add: model_defs sample_defs string_defs denied_env_def)
  show ?thesis
    using clipboard_denied_notice [OF a b] a b by simp
qed

section \<open>Reading the recognition response\<close>

text \<open>
  What lines 40 to 50 make of a parsed body, by the path
  \<^verbatim>\<open>candidates[0].content.parts[0].text\<close>.
\<close>

lemma recognize_extract_on_path:
  "(candidates0_content_parts0_text data = Inr t \<and> truthy t \<longrightarrow>
      recognize_extract data = Inr t) \<and>
   (candidates0_content_parts0_text data = Inr t \<and> \<not> truthy t \<longrightarrow>
      recognize_extract data = Inr (JStr not_recognized_msg)) \<and>
   (\<not> truthy data \<or>
    (\<exists>v. get_field data (ascii ''candidates'') = Inr v \<and> \<not> truthy v) \<or>
    (\<exists>v. candidates0 data = Inr v \<and> \<not> truthy v) \<or>
    (\<exists>v. candidates0_content data = Inr v \<and> \<not> truthy v) \<or>
    (\<exists>v. candidates0_content_parts data = Inr v \<and> \<not> truthy v) \<longrightarrow>
      recognize_extract data = Inr (JStr not_recognized_msg))"
proof (intro conjI impI)
  assume "candidates0_content_parts0_text data = Inr t \<and> truthy t"
  then show "recognize_extract data = Inr t"
    by (auto simp: extract_defs and_then_eq split: sum.splits
             dest: get_field_truthy_parent get_index0_truthy_parent)
next
  assume "candidates0_content_parts0_text data = Inr t \<and> \<not> truthy t"
  then show "recognize_extract data = Inr (JStr not_recognized_msg)"
    by (auto simp: extract_defs and_then_eq split: sum.splits)
next
  assume "\<not> truthy data \<or>
    (\<exists>v. get_field data (ascii ''candidates'') = Inr v \<and> \<not> truthy v) \<or>
    (\<exists>v. candidates0 data = Inr v \<and> \<not> truthy v) \<or>
    (\<exists>v. candidates0_content data = Inr v \<and> \<not> truthy v) \<or>
    (\<exists>v. candidates0_content_parts data = Inr v \<and> \<not> truthy v)"
  then show "recognize_extract data = Inr (JStr not_recognized_msg)"
    by (auto simp: extract_defs and_then_eq split: sum.splits)
qed

lemma recognize_null_body:
  "key \<noteq> [] \<Longrightarrow> read_as_data_url e b = Inr d \<Longrightarrow>
   fetch e (recognition_request b d key) = Inr (Inr JNull) \<Longrightarrow>
   snd (recognizeImageWithGemini e b key) = Inr (JStr not_recognized_msg)"
  by (simp add: recognize_answered recognize_extract_def)

text \<open>
  C9. \<^verbatim>\<open>recognizeImageWithGemini\<close> is called with a credential, the reader delivers the
  data URL and the request is answered with a body in which the path
  \<^verbatim>\<open>candidates[0].content.parts[0].text\<close> can be read and holds the empty string. Then the
  function returns the not-recognized message, not the empty string; and it returns the
  same value as any call for the same image and credential that is answered with the
  body \<^verbatim>\<open>null\<close>.
\<close>

theorem empty_text_is_not_recognized:
  "key \<noteq> [] \<Longrightarrow> read_as_data_url e b = Inr d \<Longrightarrow>
   fetch e (recognition_request b d key) = Inr (Inr data) \<Longrightarrow>
   candidates0_content_parts0_text data = Inr (JStr []) \<Longrightarrow>
     snd (recognizeImageWithGemini e b key) = Inr (JStr not_recognized_msg) \<and>
     snd (recognizeImageWithGemini e b key) \<noteq> Inr (JStr []) \<and>
     (\<forall>e' d'. read_as_data_url e' b = Inr d' \<and>
        fetch e' (recognition_request b d' key) = Inr (Inr JNull) \<longrightarrow>
        snd (recognizeImageWithGemini e' b key) = snd (recognizeImageWithGemini e b key))"
proof -
  assume key: "key \<noteq> []" and rd: "read_as_data_url e b = Inr d"
    and answered: "fetch e (recognition_request b d key) = Inr (Inr data)"
    and empty: "candidates0_content_parts0_text data = Inr (JStr [])"
  have "recognize_extract data = Inr (JStr not_recognized_msg)"
    using recognize_extract_on_path [of data "JStr []"] empty by simp
  then have result: "snd (recognizeImageWithGemini e b key) = Inr (JStr not_recognized_msg)"
    using recognize_answered [OF key rd answered] by simp
  moreover have "snd (recognizeImageWithGemini e b key) \<noteq> Inr (JStr [])"
    using result by (simp add: not_recognized_msg_def)
  moreover have "snd (recognizeImageWithGemini e' b key) = snd (recognizeImageWithGemini e b key)"
    if "read_as_data_url e' b = Inr d' \<and> fetch e' (recognition_request b d' key) = Inr (Inr JNull)"
    for e' d'
    using that result recognize_null_body [OF key, of e' b d'] by simp
  ultimately show ?thesis by blast
qed

text \<open>
  A call with the credential \<^verbatim>\<open>ABC123\<close> answered with a body whose text is the empty
  string, next to a call answered with \<^verbatim>\<open>null\<close>.
\<close>

theorem empty_text_is_not_recognized_witness:
  "ascii ''ABC123'' \<noteq> [] \<and>
   read_as_data_url empty_text_env sample_blob = Inr sample_data_url \<and>
   fetch empty_text_env (recognition_request sample_blob sample_data_url (ascii ''ABC123''))
     = Inr (Inr (text_response (JStr []))) \<and>
   candidates0_content_parts0_text (text_response (JStr [])) = Inr (JStr []) \<and>
   read_as_data_url null_body_env sample_blob = Inr sample_data_url \<and>
   fetch null_body_env (recognition_request sample_blob sample_data_url (ascii ''ABC123''))
     = Inr (Inr JNull) \<and>
   snd (recognizeImageWithGemini empty_text_env sample_blob (ascii ''ABC123''))
     = Inr (JStr not_recognized_msg) \<and>
   snd (recognizeImageWithGemini null_body_env sample_blob (ascii ''ABC123''))
     = snd (recognizeImageWithGemini empty_text_env sample_blob (ascii ''ABC123''))"
proof -
  have h1: "ascii ''ABC123'' \<noteq> []"
    by (simp add: ascii_def)
  have h2: "read_as_data_url empty_text_env sample_blob = Inr sample_data_url"
    by (simp add: empty_text_env_def sample_env_def sample_data_url_def)
  have h3: "fetch empty_text_env
      (recognition_request sample_blob sample_data_url (ascii ''ABC123''))
     = Inr (Inr (text_response (JStr [])))"
    by (simp add: empty_text_env_def sample_env_def recognition_request_def)
  have h4: "candidates0_content_parts0_text (text_response (JStr [])) = Inr (JStr [])"
    by (simp add: extract_defs text_response_def ascii_def)
  have h5: "read_as_data_url null_body_env sample_blob = Inr sample_data_url
      \<and> fetch null_body_env (recognition_request sample_blob sample_data_url (ascii ''ABC123''))
        = Inr (Inr JNull)"
    by (simp add: null_body_env_def sample_env_def sample_data_url_def recognition_request_def)
  note facts = empty_text_is_not_recognized [OF h1 h2 h3 h4]
  have c1: "snd (recognizeImageWithGemini empty_text_env sample_blob (ascii ''ABC123''))
     = Inr (JStr not_recognized_msg)"
    using facts [THEN conjunct1] .
  have c2: "snd (recognizeImageWithGemini null_body_env sample_blob (ascii ''ABC123''))
     = snd (recognizeImageWithGemini empty_text_env sample_blob (ascii ''ABC123''))"
    using facts [THEN conjunct2, THEN conjunct2, rule_format, OF h5] .
  show ?thesis
    by (intro conjI) (rule h1 h2 h3 h4 h5 [THEN conjunct1] h5 [THEN conjunct2] c1 c2)+
qed

text \<open>
  C6, as the code has it. \<^verbatim>\<open>recognizeImageWithGemini\<close> is called with a credential, the
  reader delivers the data URL and the request is answered with a JSON body. When the
  path \<^verbatim>\<open>candidates[0].content.parts[0].text\<close> of that body can be read to its end, the
  function returns the value found there if that value is truthy (for a string: not
  empty), and the not-recognized message if it is falsy (missing, empty, \<^verbatim>\<open>null\<close>, \<^verbatim>\<open>0\<close>,
  \<^verbatim>\<open>false\<close>); and when one of the body, \<^verbatim>\<open>candidates\<close>, \<^verbatim>\<open>candidates[0]\<close>, \<^verbatim>\<open>content\<close> or
  \<^verbatim>\<open>parts\<close> is missing or falsy, the function returns the not-recognized message, with no
  exception. Nothing is said about a truthy \<^verbatim>\<open>parts\<close> whose first element is missing or
  \<^verbatim>\<open>null\<close>.
\<close>

theorem recognize_returns_by_path:
  "key \<noteq> [] \<Longrightarrow> read_as_data_url e b = Inr d \<Longrightarrow>
   fetch e (recognition_request b d key) = Inr (Inr data) \<Longrightarrow>
     (candidates0_content_parts0_text data = Inr t \<and> truthy t \<longrightarrow>
        snd (recognizeImageWithGemini e b key) = Inr t) \<and>
     (candidates0_content_parts0_text data = Inr t \<and> \<not> truthy t \<longrightarrow>
        snd (recognizeImageWithGemini e b key) = Inr (JStr not_recognized_msg)) \<and>
     (\<not> truthy data \<or>
      (\<exists>v. get_field data (ascii ''candidates'') = Inr v \<and> \<not> truthy v) \<or>
      (\<exists>v. candidates0 data = Inr v \<and> \<not> truthy v) \<or>
      (\<exists>v. candidates0_content data = Inr v \<and> \<not> truthy v) \<or>
      (\<exists>v. candidates0_content_parts data = Inr v \<and> \<not> truthy v) \<longrightarrow>
        snd (recognizeImageWithGemini e b key) = Inr (JStr not_recognized_msg))"
proof -
  assume key: "key \<noteq> []" and rd: "read_as_data_url e b = Inr d"
    and answered: "fetch e (recognition_request b d key) = Inr (Inr data)"
  have "snd (recognizeImageWithGemini e b key) = recognize_extract data"
    using recognize_answered [OF key rd answered] by simp
  then show ?thesis
    using recognize_extract_on_path [of data t] by simp
qed

text \<open>
  Three calls with the credential \<^verbatim>\<open>ABC123\<close>: answered with a body whose text is
  \<^verbatim>\<open>Hello\<close>, with a body whose text is \<^verbatim>\<open>null\<close>, and with a body without \<^verbatim>\<open>candidates\<close>.
\<close>

theorem recognize_returns_by_path_witness:
  "ascii ''ABC123'' \<noteq> [] \<and>
   read_as_data_url hello_env sample_blob = Inr sample_data_url \<and>
   fetch hello_env (recognition_request sample_blob sample_data_url (ascii ''ABC123''))
     = Inr (Inr (text_response (JStr (ascii ''Hello'')))) \<and>
   candidates0_content_parts0_text (text_response (JStr (ascii ''Hello'')))
     = Inr (JStr (ascii ''Hello'')) \<and>
   truthy (JStr (ascii ''Hello'')) \<and>
   snd (recognizeImageWithGemini hello_env sample_blob (ascii ''ABC123''))
     = Inr (JStr (ascii ''Hello'')) \<and>
   read_as_data_url null_text_env sample_blob = Inr sample_data_url \<and>
   fetch null_text_env (recognition_request sample_blob sample_data_url (ascii ''ABC123''))
     = Inr (Inr (text_response JNull)) \<and>
   candidates0_content_parts0_text (text_response JNull) = Inr JNull \<and>
   \<not> truthy JNull \<and>
   snd (recognizeImageWithGemini null_text_env sample_blob (ascii ''ABC123''))
     = Inr (JStr not_recognized_msg) \<and>
   read_as_data_url unrecognized_env sample_blob = Inr sample_data_url \<and>
   fetch unrecognized_env (recognition_request sample_blob sample_data_url (ascii ''ABC123''))
     = Inr (Inr no_candidates_response) \<and>
   get_field no_candidates_response (ascii ''candidates'') = Inr JUndefined \<and>
   \<not> truthy JUndefined \<and>
   snd (recognizeImageWithGemini unrecognized_env sample_blob (ascii ''ABC123''))
     = Inr (JStr not_recognized_msg)"
proof -
  have key: "ascii ''ABC123'' \<noteq> []"
    by (simp add: ascii_def)
  have rd1: "read_as_data_url hello_env sample_blob = Inr sample_data_url"
    by (simp add: hello_env_def sample_env_def sample_data_url_def)
  have rd2: "read_as_data_url null_text_env sample_blob = Inr sample_data_url"
    by (simp add: null_text_env_def sample_env_def sample_data_url_def)
  have rd3: "read_as_data_url unrecognized_env sample_blob = Inr sample_data_url"
    by (simp add: unrecognized_env_def sample_env_def sample_data_url_def)
  have f1: "fetch hello_env (recognition_request sample_blob sample_data_url (ascii ''ABC123''))
     = Inr (Inr (text_response (JStr (ascii ''Hello''))))"
    by (simp add: hello_env_def sample_env_def recognition_request_def)
  have f2: "fetch null_text_env
      (recognition_request sample_blob sample_data_url (ascii ''ABC123''))
     = Inr (Inr (text_response JNull))"
    by (simp add: null_text_env_def sample_env_def recognition_request_def)
  have f3: "fetch unrecognized_env
      (recognition_request sample_blob sample_data_url (ascii ''ABC123''))
     = Inr (Inr no_candidates_response)"
    by (simp add: unrecognized_env_def sample_env_def recognition_request_def)
  have a: "candidates0_content_parts0_text (text_response (JStr (ascii ''Hello'')))
      = Inr (JStr (ascii ''Hello'')) \<and> truthy (JStr (ascii ''Hello''))"
    by (simp add: extract_defs text_response_def string_defs)
  have b: "candidates0_content_parts0_text (text_response JNull) = Inr JNull \<and> \<not> truthy JNull"
    by (simp add: extract_defs text_response_def string_defs)
  have c: "get_field no_candidates_response (ascii ''candidates'') = Inr JUndefined
      \<and> \<not> truthy JUndefined"
    by (simp add: no_candidates_response_def string_defs)
  from c have c': "\<not> truthy no_candidates_response \<or>
      (\<exists>v. get_field no_candidates_response (ascii ''candidates'') = Inr v \<and> \<not> truthy v) \<or>
      (\<exists>v. candidates0 no_candidates_response = Inr v \<and> \<not> truthy v) \<or>
      (\<exists>v. candidates0_content no_candidates_response = Inr v \<and> \<not> truthy v) \<or>
      (\<exists>v. candidates0_content_parts no_candidates_response = Inr v \<and> \<not> truthy v)"
    by blast
  have r1: "snd (recognizeImageWithGemini hello_env sample_blob (ascii ''ABC123''))
     = Inr (JStr (ascii ''Hello''))"
    using recognize_returns_by_path
      [OF key rd1 f1, of "JStr (ascii ''Hello'')", THEN conjunct1] a
    by (rule mp)
  have r2: "snd (recognizeImageWithGemini null_text_env sample_blob (ascii ''ABC123''))
     = Inr (JStr not_recognized_msg)"
    using recognize_returns_by_path
      [OF key rd2 f2, of JNull, THEN conjunct2, THEN conjunct1] b
    by (rule mp)
  have r3: "snd (recognizeImageWithGemini unrecognized_env sample_blob (ascii ''ABC123''))
     = Inr (JStr not_recognized_msg)"
    using recognize_returns_by_path
      [OF key rd3 f3, of JNull, THEN conjunct2, THEN conjunct2] c'
    by (rule mp)
  show ?thesis
    by (intro conjI)
       (rule key rd1 rd2 rd3 f1 f2 f3 r1 r2 r3 a [THEN conjunct1] a [THEN conjunct2]
          b [THEN conjunct1] b [THEN conjunct2] c [THEN conjunct1] c [THEN conjunct2])+
qed

text \<open>
  The statement without the truthiness test fails on a call answered with a body whose
  text is the empty string: every link of the path is there, and the function does not
  return that string. And a call answered with a body whose \<^verbatim>\<open>parts\<close> is the empty array
  throws.
\<close>

theorem recognize_refuses_empty_text:
  "fetch empty_text_env (recognition_request sample_blob sample_data_url (ascii ''ABC123''))
     = Inr (Inr (text_response (JStr []))) \<and>
   candidates0_content_parts0_text (text_response (JStr [])) = Inr (JStr []) \<and>
   snd (recognizeImageWithGemini empty_text_env sample_blob (ascii ''ABC123''))
     \<noteq> Inr (JStr []) \<and>
   fetch empty_parts_env (recognition_request sample_blob sample_data_url (ascii ''ABC123''))
     = Inr (Inr empty_parts_response) \<and>
   snd (recognizeImageWithGemini empty_parts_env sample_blob (ascii ''ABC123''))
     = Inl TypeError"
  by (simp add: model_defs extract_defs sample_defs string_defs empty_text_env_def
        empty_parts_env_def text_response_def empty_parts_response_def)

section \<open>Reading the translation response\<close>

text \<open>
  C2, at a body whose first entry of the first result group exists and has no \<^verbatim>\<open>tgt\<close>:
  the guard lets it through and the function returns \<^verbatim>\<open>undefined\<close>, which is not the
  translation-failed message, and \<^verbatim>\<open>undefined\<close> is what the run stores as translated text.
\<close>

theorem translateText_returns_undefined:
  "translate_extract missing_tgt_response = Inr JUndefined \<and>
   snd (translateText missing_tgt_env (JStr (ascii ''Hello''))) = Inr JUndefined \<and>
   JUndefined \<noteq> JStr translation_failed_msg \<and>
   translatedText (ui_after (fst (handleScreenshotTranslate missing_tgt_env keyed_state))
     keyed_state) = JUndefined"
  by (simp add: model_defs extract_defs sample_defs string_defs missing_tgt_env_def
        missing_tgt_response_def text_response_def ui_after_def)

section \<open>The credential store round trip\<close>

text \<open>
  C3, as the code has it. \<^verbatim>\<open>saveGeminiApiKey\<close> stores its argument as it is, so loading
  after it gives the argument back unchanged. The trimming is done by its caller
  \<^verbatim>\<open>handleSaveKey\<close>: after \<^verbatim>\<open>handleSaveKey\<close> with \<open>x\<close> in the input field, loading gives
  \<open>trim x\<close>, and the in-memory credential is \<open>trim x\<close> as well. Loading from a store that
  was never written gives the empty string.
\<close>

theorem save_key_round_trip:
  "loadGeminiApiKey (storage_after (fst (saveGeminiApiKey x)) st) = x \<and>
   loadGeminiApiKey (storage_after (fst (handleSaveKey s)) st) = trim (apiKeyInput s) \<and>
   apiKey (ui_after (fst (handleSaveKey s)) s) = trim (apiKeyInput s) \<and>
   loadGeminiApiKey empty_storage = []"
  by (simp add: loadGeminiApiKey_def storage_after_def saveGeminiApiKey_def handleSaveKey_def
        emit_def bind_run_eq empty_storage_def ui_after_def)

text \<open>Saving a key with a space on each side and loading it gives the spaces back.\<close>

theorem saveGeminiApiKey_keeps_spaces:
  "loadGeminiApiKey (storage_after (fst (saveGeminiApiKey (ascii '' ABC123 ''))) empty_storage)
     = ascii '' ABC123 '' \<and>
   trim (ascii '' ABC123 '') = ascii ''ABC123'' \<and>
   loadGeminiApiKey (storage_after (fst (saveGeminiApiKey (ascii '' ABC123 ''))) empty_storage)
     \<noteq> trim (ascii '' ABC123 '')"
  by (simp add: loadGeminiApiKey_def storage_after_def saveGeminiApiKey_def emit_def
        empty_storage_def trim_def is_js_space_def ascii_def)

section \<open>Runs that reach the two services\<close>

text \<open>
  C1, as the code has it. Take a run that passes the credential gate and finds an
  image. If the reader delivers the data URL, the recognition request is answered with a
  JSON body, reading that body does not stop at a missing first part, the text can be
  URL-encoded, and the translation request is answered with a JSON body, then neither
  client throws and the run returns normally with the loading flag off. The stored
  recognized text is then the not-recognized message or the text at the path of the
  recognition body, and the stored translated text is the translation-failed message or
  the \<^verbatim>\<open>tgt\<close> at the path of the translation body.
\<close>

theorem answered_calls_complete_the_run:
  "apiKey s \<noteq> [] \<Longrightarrow> snd (getImageFromClipboard e) = Inr (Some b) \<Longrightarrow>
   read_as_data_url e b = Inr d \<Longrightarrow>
   fetch e (recognition_request b d (apiKey s)) = Inr (Inr data) \<Longrightarrow>
   recognize_extract data = Inr t \<Longrightarrow>
   encode_uri_component e t = Inr u \<Longrightarrow>
   fetch e (translation_request u) = Inr (Inr data') \<Longrightarrow>
     snd (recognizeImageWithGemini e b (apiKey s)) = Inr t \<and>
     snd (translateText e t) = translate_extract data' \<and>
     snd (handleScreenshotTranslate e s) = Inr () \<and>
     loading (ui_after (fst (handleScreenshotTranslate e s)) s) = False \<and>
     recognizedText (ui_after (fst (handleScreenshotTranslate e s)) s) = t \<and>
     translate_extract data' =
       Inr (translatedText (ui_after (fst (handleScreenshotTranslate e s)) s)) \<and>
     (t = JStr not_recognized_msg \<or> candidates0_content_parts0_text data = Inr t) \<and>
     (translatedText (ui_after (fst (handleScreenshotTranslate e s)) s)
        = JStr translation_failed_msg \<or>
      and_then (translateResult00 data') (\<lambda>r. get_field r (ascii ''tgt''))
        = Inr (translatedText (ui_after (fst (handleScreenshotTranslate e s)) s)))"
proof -
  assume key: "apiKey s \<noteq> []" and clip: "snd (getImageFromClipboard e) = Inr (Some b)"
    and rd: "read_as_data_url e b = Inr d"
    and f1: "fetch e (recognition_request b d (apiKey s)) = Inr (Inr data)"
    and ex: "recognize_extract data = Inr t"
    and enc: "encode_uri_component e t = Inr u"
    and f2: "fetch e (translation_request u) = Inr (Inr data')"
  have r: "snd (recognizeImageWithGemini e b (apiKey s)) = Inr t"
    using recognize_answered [OF key rd f1] ex by simp
  have tr: "snd (translateText e t) = translate_extract data'"
    using translate_answered [OF enc f2] by simp
  obtain v where v: "translate_extract data' = Inr v"
    using translate_extract_returns by blast
  have from_recognition: "t = JStr not_recognized_msg \<or> candidates0_content_parts0_text data = Inr t"
    using recognize_extract_cases [OF ex] by blast
  have from_translation: "v = JStr translation_failed_msg \<or>
      and_then (translateResult00 data') (\<lambda>r. get_field r (ascii ''tgt'')) = Inr v"
    using translate_extract_cases [OF v] .
  from handle_completed [OF key clip r] tr v r from_recognition from_translation
  show ?thesis by simp
qed

text \<open>
  A stored credential, a PNG on the clipboard, a recognition body reading \<^verbatim>\<open>Hello\<close> and a
  translation body carrying its rendering.
\<close>

theorem answered_calls_complete_the_run_witness:
  "apiKey keyed_state \<noteq> [] \<and>
   snd (getImageFromClipboard hello_env) = Inr (Some sample_blob) \<and>
   read_as_data_url hello_env sample_blob = Inr sample_data_url \<and>
   fetch hello_env (recognition_request sample_blob sample_data_url (apiKey keyed_state))
     = Inr (Inr (text_response (JStr (ascii ''Hello'')))) \<and>
   recognize_extract (text_response (JStr (ascii ''Hello''))) = Inr (JStr (ascii ''Hello'')) \<and>
   encode_uri_component hello_env (JStr (ascii ''Hello'')) = Inr (ascii ''Hello'') \<and>
   fetch hello_env (translation_request (ascii ''Hello''))
     = Inr (Inr (tgt_response (JStr nihao))) \<and>
   translate_extract (tgt_response (JStr nihao)) = Inr (JStr nihao) \<and>
   snd (handleScreenshotTranslate hello_env keyed_state) = Inr () \<and>
   loading (ui_after (fst (handleScreenshotTranslate hello_env keyed_state)) keyed_state)
     = False \<and>
   recognizedText (ui_after (fst (handleScreenshotTranslate hello_env keyed_state)) keyed_state)
     = JStr (ascii ''Hello'') \<and>
   translatedText (ui_after (fst (handleScreenshotTranslate hello_env keyed_state)) keyed_state)
     = JStr nihao"
proof -
  have h1: "apiKey keyed_state \<noteq> []"
    by (simp add: sample_defs string_defs)
  have h2: "snd (getImageFromClipboard hello_env) = Inr (Some sample_blob)"
    by (simp add: model_defs sample_defs string_defs hello_env_def)
  have h3: "read_as_data_url hello_env sample_blob = Inr sample_data_url"
    by (simp add: sample_defs hello_env_def sample_data_url_def)
  have h4: "fetch hello_env (recognition_request sample_blob sample_data_url (apiKey keyed_state))
     = Inr (Inr (text_response (JStr (ascii ''Hello''))))"
    by (simp add: hello_env_def sample_env_def recognition_request_def)
  have h5: "recognize_extract (text_response (JStr (ascii ''Hello''))) = Inr (JStr (ascii ''Hello''))"
    by (simp add: extract_defs text_response_def string_defs)
  have h6: "encode_uri_component hello_env (JStr (ascii ''Hello'')) = Inr (ascii ''Hello'')"
    by (simp add: sample_defs string_defs hello_env_def)
  have h7: "fetch hello_env (translation_request (ascii ''Hello''))
     = Inr (Inr (tgt_response (JStr nihao)))"
    by (simp add: hello_env_def sample_env_def translation_request_def)
  have h8: "translate_extract (tgt_response (JStr nihao)) = Inr (JStr nihao)"
    by (simp add: extract_defs tgt_response_def string_defs)
  show ?thesis
    using answered_calls_complete_the_run [OF h1 h2 h3 h4 h5 h6 h7] h1 h2 h3 h4 h5 h6 h7 h8
    by simp
qed

text \<open>
  When the recognition service answers with a body that is not JSON, the rejection of
  \<^verbatim>\<open>response.json()\<close> leaves \<^verbatim>\<open>recognizeImageWithGemini\<close> and the handler, and the loading
  flag stays on. A translation request that fails in transit leaves \<^verbatim>\<open>translateText\<close> in
  the same way.
\<close>

theorem unparsable_body_escapes:
  "snd (recognizeImageWithGemini html_body_env sample_blob (ascii ''ABC123''))
     = Inl SyntaxError \<and>
   snd (handleScreenshotTranslate html_body_env keyed_state) = Inl SyntaxError \<and>
   loading (ui_after (fst (handleScreenshotTranslate html_body_env keyed_state)) keyed_state)
     = True \<and>
   snd (translateText offline_translation_env (JStr (ascii ''Hello''))) = Inl NetworkError"
  by (simp add: model_defs extract_defs sample_defs string_defs html_body_env_def
        offline_translation_env_def ui_after_def)

text \<open>
  C5, as the code has it. In a run that reaches the recognition stage and whose
  recognition call returns \<open>t\<close> (the not-recognized message included), \<^verbatim>\<open>translateText\<close> is
  entered with \<open>t\<close> and with nothing else, and \<open>t\<close> is stored as the recognized text;
  whenever that translation call returns a value, the run returns normally, the loading
  flag is off and that value is stored as the translated text.
\<close>

theorem translation_gets_recognition_result:
  "apiKey s \<noteq> [] \<Longrightarrow> snd (getImageFromClipboard e) = Inr (Some b) \<Longrightarrow>
   snd (recognizeImageWithGemini e b (apiKey s)) = Inr t \<Longrightarrow>
     Enter_translateText t \<in> set (fst (handleScreenshotTranslate e s)) \<and>
     (\<forall>t'. Enter_translateText t' \<in> set (fst (handleScreenshotTranslate e s)) \<longrightarrow> t' = t) \<and>
     recognizedText (ui_after (fst (handleScreenshotTranslate e s)) s) = t \<and>
     (\<forall>v. snd (translateText e t) = Inr v \<longrightarrow>
        snd (handleScreenshotTranslate e s) = Inr () \<and>
        loading (ui_after (fst (handleScreenshotTranslate e s)) s) = False \<and>
        translatedText (ui_after (fst (handleScreenshotTranslate e s)) s) = v)"
proof -
  assume key: "apiKey s \<noteq> []" and clip: "snd (getImageFromClipboard e) = Inr (Some b)"
    and rec: "snd (recognizeImageWithGemini e b (apiKey s)) = Inr t"
  have called: "Enter_translateText t \<in> set (fst (handleScreenshotTranslate e s))"
    using key clip rec translate_enters [of t e]
    by (auto simp: handle_image Let_def split: sum.splits)
  have only: "t' = t" if "Enter_translateText t' \<in> set (fst (handleScreenshotTranslate e s))" for t'
    using subsetD [OF handle_events [OF key clip] that] rec
    by (auto split: sum.splits
          dest: getImageFromClipboard_events recognize_events translate_events)
  have stored: "recognizedText (ui_after (fst (handleScreenshotTranslate e s)) s) = t"
    using handle_recognized [OF key clip rec] .
  show ?thesis
    using called only stored handle_completed [OF key clip rec] by blast
qed

text \<open>
  The recognition body has no \<^verbatim>\<open>candidates\<close>, and the translation service answers: the
  not-recognized message is translated and the run completes.
\<close>

theorem translation_gets_recognition_result_witness:
  "apiKey keyed_state \<noteq> [] \<and>
   snd (getImageFromClipboard unrecognized_env) = Inr (Some sample_blob) \<and>
   snd (recognizeImageWithGemini unrecognized_env sample_blob (apiKey keyed_state))
     = Inr (JStr not_recognized_msg) \<and>
   snd (translateText unrecognized_env (JStr not_recognized_msg))
     = Inr (JStr (ascii ''Unrecognized image text'')) \<and>
   Enter_translateText (JStr not_recognized_msg)
     \<in> set (fst (handleScreenshotTranslate unrecognized_env keyed_state)) \<and>
   recognizedText (ui_after (fst (handleScreenshotTranslate unrecognized_env keyed_state))
     keyed_state) = JStr not_recognized_msg \<and>
   snd (handleScreenshotTranslate unrecognized_env keyed_state) = Inr () \<and>
   loading (ui_after (fst (handleScreenshotTranslate unrecognized_env keyed_state))
     keyed_state) = False \<and>
   translatedText (ui_after (fst (handleScreenshotTranslate unrecognized_env keyed_state))
     keyed_state) = JStr (ascii ''Unrecognized image text'')"
proof -
  have h1: "apiKey keyed_state \<noteq> []"
    by (simp add: sample_defs string_defs)
  have h2: "snd (getImageFromClipboard unrecognized_env) = Inr (Some sample_blob)"
    by (simp add: model_defs sample_defs string_defs unrecognized_env_def)
  have h3: "snd (recognizeImageWithGemini unrecognized_env sample_blob (apiKey keyed_state))
     = Inr (JStr not_recognized_msg)"
    by (simp add: model_defs extract_defs sample_defs string_defs unrecognized_env_def
          no_candidates_response_def)
  have h4: "snd (translateText unrecognized_env (JStr not_recognized_msg))
     = Inr (JStr (ascii ''Unrecognized image text''))"
    by (simp add: model_defs extract_defs sample_defs string_defs unrecognized_env_def
          tgt_response_def)
  show ?thesis
    using translation_gets_recognition_result [OF h1 h2 h3] h1 h2 h3 h4 by simp
qed

text \<open>
  The recognition body has no \<^verbatim>\<open>candidates\<close> and the translation request fails in
  transit: the not-recognized message is handed to \<^verbatim>\<open>translateText\<close>, the rejection ends
  the run, and the loading flag stays on.
\<close>

theorem failed_translation_leaves_loading:
  "snd (recognizeImageWithGemini offline_translation_env sample_blob (apiKey keyed_state))
     = Inr (JStr not_recognized_msg) \<and>
   Enter_translateText (JStr not_recognized_msg)
     \<in> set (fst (handleScreenshotTranslate offline_translation_env keyed_state)) \<and>
   snd (handleScreenshotTranslate offline_translation_env keyed_state) = Inl NetworkError \<and>
   loading (ui_after (fst (handleScreenshotTranslate offline_translation_env keyed_state))
     keyed_state) = True"
  by (simp add: model_defs extract_defs sample_defs string_defs offline_translation_env_def
        no_candidates_response_def ui_after_def)

section \<open>The credential seen by the recognition client\<close>

text \<open>
  C10, as the code has it. In every run, \<^verbatim>\<open>recognizeImageWithGemini\<close> is entered only with
  the credential of the render, and only when that credential is not empty: with an
  empty credential the run reads no clipboard and never enters the client, so the
  client's own empty-credential branch is never taken from the controller. The
  missing-key message is the stored recognized text only when a request of the run was
  answered with a body whose \<^verbatim>\<open>candidates[0].content.parts[0].text\<close> is that very string,
  and the stored translated text only when a request of the run was answered with a body
  whose \<^verbatim>\<open>translateResult[0][0].tgt\<close> is that very string.
\<close>

theorem recognition_only_with_credential:
  "(\<forall>b k. Enter_recognizeImageWithGemini b k \<in> set (fst (handleScreenshotTranslate e s)) \<longrightarrow>
      k = apiKey s \<and> k \<noteq> []) \<and>
   (apiKey s = [] \<longrightarrow>
      ClipboardRead \<notin> set (fst (handleScreenshotTranslate e s)) \<and>
      (\<forall>b k. Enter_recognizeImageWithGemini b k \<notin> set (fst (handleScreenshotTranslate e s)))) \<and>
   (recognizedText (ui_after (fst (handleScreenshotTranslate e s)) s) = JStr no_key_msg \<longrightarrow>
      (\<exists>req data. Fetch req \<in> set (fst (handleScreenshotTranslate e s)) \<and>
         fetch e req = Inr (Inr data) \<and>
         candidates0_content_parts0_text data = Inr (JStr no_key_msg))) \<and>
   (translatedText (ui_after (fst (handleScreenshotTranslate e s)) s) = JStr no_key_msg \<longrightarrow>
      (\<exists>req data. Fetch req \<in> set (fst (handleScreenshotTranslate e s)) \<and>
         fetch e req = Inr (Inr data) \<and>
         and_then (translateResult00 data) (\<lambda>r. get_field r (ascii ''tgt''))
           = Inr (JStr no_key_msg)))"
proof (cases "apiKey s = []")
  case True
  then show ?thesis
    by (simp add: handle_no_key ui_after_Cons ui_after_Nil no_key_msg_def)
next
  case key: False
  obtain found where clip: "snd (getImageFromClipboard e) = Inr found"
    using getImageFromClipboard_returns by blast
  show ?thesis
  proof (cases found)
    case None
    with key clip show ?thesis
      by (auto simp: handle_no_image ui_after_append ui_after_Cons ui_after_Nil
            ui_after_getImageFromClipboard no_key_msg_def
          dest: getImageFromClipboard_events)
  next
    case (Some b)
    with clip have clip': "snd (getImageFromClipboard e) = Inr (Some b)" by simp
    note evs = handle_events [OF key clip']
    have enter: "k = apiKey s \<and> k \<noteq> []"
      if "Enter_recognizeImageWithGemini b' k \<in> set (fst (handleScreenshotTranslate e s))"
      for b' k
      using subsetD [OF evs that] key
      by (auto split: sum.splits
            dest: getImageFromClipboard_events recognize_events translate_events)
    have rec: "\<exists>req data. Fetch req \<in> set (fst (handleScreenshotTranslate e s)) \<and>
         fetch e req = Inr (Inr data) \<and>
         candidates0_content_parts0_text data = Inr (JStr no_key_msg)"
      if stored: "recognizedText (ui_after (fst (handleScreenshotTranslate e s)) s)
        = JStr no_key_msg"
    proof (cases "snd (recognizeImageWithGemini e b (apiKey s))")
      case (Inl err)
      with key clip' stored show ?thesis
        by (simp add: handle_image Let_def ui_after_append ui_after_Cons ui_after_Nil
              ui_after_getImageFromClipboard ui_after_recognize no_key_msg_def)
    next
      case (Inr t)
      have "recognizedText (ui_after (fst (handleScreenshotTranslate e s)) s) = t"
        using handle_recognized [OF key clip' Inr] .
      with stored have t: "t = JStr no_key_msg" by simp
      obtain req data where
        f: "Fetch req \<in> set (fst (recognizeImageWithGemini e b (apiKey s)))"
        and a: "fetch e req = Inr (Inr data)" and x: "recognize_extract data = Inr t"
        using recognize_returned [OF key Inr] by blast
      have "candidates0_content_parts0_text data = Inr (JStr no_key_msg)"
        using recognize_extract_cases [OF x] t
        by (auto simp: no_key_msg_def not_recognized_msg_def)
      moreover have "Fetch req \<in> set (fst (handleScreenshotTranslate e s))"
        using f key clip' by (auto simp: handle_image Let_def split: sum.splits)
      ultimately show ?thesis using a by blast
    qed
    have tr: "\<exists>req data. Fetch req \<in> set (fst (handleScreenshotTranslate e s)) \<and>
         fetch e req = Inr (Inr data) \<and>
         and_then (translateResult00 data) (\<lambda>r. get_field r (ascii ''tgt''))
           = Inr (JStr no_key_msg)"
      if stored: "translatedText (ui_after (fst (handleScreenshotTranslate e s)) s)
        = JStr no_key_msg"
    proof (cases "snd (recognizeImageWithGemini e b (apiKey s))")
      case (Inl err)
      with key clip' stored show ?thesis
        by (simp add: handle_image Let_def ui_after_append ui_after_Cons ui_after_Nil
              ui_after_getImageFromClipboard ui_after_recognize no_key_msg_def)
    next
      case (Inr t)
      show ?thesis
      proof (cases "snd (translateText e t)")
        case (Inl err)
        with key clip' Inr stored show ?thesis
          by (simp add: handle_image Let_def ui_after_append ui_after_Cons ui_after_Nil
                ui_after_getImageFromClipboard ui_after_recognize ui_after_translate
                no_key_msg_def)
      next
        case translated: (Inr v)
        have "translatedText (ui_after (fst (handleScreenshotTranslate e s)) s) = v"
          using handle_completed(4) [OF key clip' Inr translated] .
        with stored have v: "v = JStr no_key_msg" by simp
        obtain req data where
          f: "Fetch req \<in> set (fst (translateText e t))"
          and a: "fetch e req = Inr (Inr data)" and x: "translate_extract data = Inr v"
          using translate_returned [OF translated] by blast
        have "and_then (translateResult00 data) (\<lambda>r. get_field r (ascii ''tgt''))
            = Inr (JStr no_key_msg)"
          using translate_extract_cases [OF x] v
          by (auto simp: no_key_msg_def translation_failed_msg_def)
        moreover have "Fetch req \<in> set (fst (handleScreenshotTranslate e s))"
          using f key clip' Inr translated
          by (auto simp: handle_image Let_def split: sum.splits)
        ultimately show ?thesis using a by blast
      qed
    qed
    show ?thesis using key enter rec tr by blast
  qed
qed

text \<open>
  A run with a stored credential enters the client with that credential; a run of the
  popup as first opened stops before the clipboard; and when both services return the
  words of the missing-key message, the bodies that carry them are among the answers.
\<close>

theorem recognition_only_with_credential_witness:
  "Enter_recognizeImageWithGemini sample_blob (ascii ''ABC123'')
     \<in> set (fst (handleScreenshotTranslate echo_env keyed_state)) \<and>
   apiKey keyed_state = ascii ''ABC123'' \<and>
   apiKey initial_state = [] \<and>
   ClipboardRead \<notin> set (fst (handleScreenshotTranslate echo_env initial_state)) \<and>
   recognizedText (ui_after (fst (handleScreenshotTranslate echo_env keyed_state)) keyed_state)
     = JStr no_key_msg \<and>
   translatedText (ui_after (fst (handleScreenshotTranslate echo_env keyed_state)) keyed_state)
     = JStr no_key_msg \<and>
   (\<exists>req data. Fetch req \<in> set (fst (handleScreenshotTranslate echo_env keyed_state)) \<and>
      fetch echo_env req = Inr (Inr data) \<and>
      candidates0_content_parts0_text data = Inr (JStr no_key_msg)) \<and>
   (\<exists>req data. Fetch req \<in> set (fst (handleScreenshotTranslate echo_env keyed_state)) \<and>
      fetch echo_env req = Inr (Inr data) \<and>
      and_then (translateResult00 data) (\<lambda>r. get_field r (ascii ''tgt''))
        = Inr (JStr no_key_msg))"
proof -
  have h1: "Enter_recognizeImageWithGemini sample_blob (ascii ''ABC123'')
     \<in> set (fst (handleScreenshotTranslate echo_env keyed_state))"
    by (simp add: model_defs extract_defs sample_defs string_defs echo_env_def
          text_response_def tgt_response_def)
  have h2: "apiKey initial_state = []"
    by (simp add: initial_state_def)
  have h3: "recognizedText (ui_after (fst (handleScreenshotTranslate echo_env keyed_state))
      keyed_state) = JStr no_key_msg"
    by (simp add: model_defs extract_defs sample_defs string_defs echo_env_def
          text_response_def tgt_response_def ui_after_def)
  have h4: "translatedText (ui_after (fst (handleScreenshotTranslate echo_env keyed_state))
      keyed_state) = JStr no_key_msg"
    by (simp add: model_defs extract_defs sample_defs string_defs echo_env_def
          text_response_def tgt_response_def ui_after_def)
  note keyed = recognition_only_with_credential [of echo_env keyed_state]
  note unkeyed = recognition_only_with_credential [of echo_env initial_state]
  have c1: "apiKey keyed_state = ascii ''ABC123''"
    using keyed [THEN conjunct1, rule_format, OF h1] by simp
  have c2: "ClipboardRead \<notin> set (fst (handleScreenshotTranslate echo_env initial_state))"
    using unkeyed [THEN conjunct2, THEN conjunct1, rule_format, OF h2] by simp
  have c3: "\<exists>req data. Fetch req \<in> set (fst (handleScreenshotTranslate echo_env keyed_state)) \<and>
      fetch echo_env req = Inr (Inr data) \<and>
      candidates0_content_parts0_text data = Inr (JStr no_key_msg)"
    using keyed [THEN conjunct2, THEN conjunct2, THEN conjunct1] h3 by (rule mp)
  have c4: "\<exists>req data. Fetch req \<in> set (fst (handleScreenshotTranslate echo_env keyed_state)) \<and>
      fetch echo_env req = Inr (Inr data) \<and>
      and_then (translateResult00 data) (\<lambda>r. get_field r (ascii ''tgt''))
        = Inr (JStr no_key_msg)"
    using keyed [THEN conjunct2, THEN conjunct2, THEN conjunct2] h4 by (rule mp)
  show ?thesis
    by (intro conjI) (rule h1 c1 h2 c2 h3 h4 c3 c4)+
qed

text \<open>
  With a stored credential, a recognition body whose text is the words of the
  missing-key message puts that message into the stored recognized text.
\<close>

theorem missing_key_words_can_be_stored:
  "apiKey keyed_state \<noteq> [] \<and>
   recognizedText (ui_after (fst (handleScreenshotTranslate echo_env keyed_state)) keyed_state)
     = JStr no_key_msg"
  by (simp add: model_defs extract_defs sample_defs string_defs echo_env_def
        text_response_def tgt_response_def ui_after_def)

end
